theory Spec2Isabelle
  imports Main "HOL-Library.Char_ord" "HOL-Library.List_Lexorder"
begin

section \<open>Data model\<close>

text \<open>
  The client-side swap helper of the package \<open>solanatracker\<close>. The node client, the
  transaction type and the JSON decoder belong to libraries; the model takes the node as
  a record of its two operations that \<open>sendAndConfirmTransaction\<close> calls, and records
  every call to the outside world (send, status query, sleep) in an event list, in the
  order the code performs them.
\<close>

text \<open>\<open>rpc.CommitmentType\<close>: the three options that the comment of \<open>SwapOptions\<close> lists.\<close>

datatype CommitmentType = CommitmentFinalized | CommitmentConfirmed | CommitmentProcessed

text \<open>
  \<open>rpc.ConfirmationStatusType\<close>: the confirmation status that the node reports for a
  signature. The source names \<open>rpc.ConfirmationStatusFinalized\<close>; the node reports one
  of the three statuses processed, confirmed, finalized.
\<close>

datatype ConfirmationStatusType =
  ConfirmationStatusProcessed | ConfirmationStatusConfirmed | ConfirmationStatusFinalized

text \<open>
  The declaration of \<open>rpc.ConfirmationStatusType\<close>, and with it the meaning of \<open>>=\<close>
  at that type, is in the library \<open>solana-go\<close>. The comparison is a parameter of the
  model: \<open>geq a b\<close> stands for the Go expression \<open>a >= b\<close>.
\<close>

type_synonym StatusOrder = "ConfirmationStatusType \<Rightarrow> ConfirmationStatusType \<Rightarrow> bool"

text \<open>
  Modelled from the spec: the order of the levels in the glossary,
  processed < confirmed < finalized; the declaration of the type is not in the
  repository.
\<close>

fun level :: "ConfirmationStatusType \<Rightarrow> nat" where
  "level ConfirmationStatusProcessed = 0"
| "level ConfirmationStatusConfirmed = 1"
| "level ConfirmationStatusFinalized = 2"

definition geq_level :: StatusOrder where
  "geq_level a b = (level b \<le> level a)"

text \<open>
  The second reading: \<open>solana-go\<close> declares \<open>type ConfirmationStatusType string\<close> with
  the constants \<open>"processed"\<close>, \<open>"confirmed"\<close> and \<open>"finalized"\<close>, and Go compares
  strings byte by byte, lexicographically.
\<close>

fun status_name :: "ConfirmationStatusType \<Rightarrow> string" where
  "status_name ConfirmationStatusProcessed = ''processed''"
| "status_name ConfirmationStatusConfirmed = ''confirmed''"
| "status_name ConfirmationStatusFinalized = ''finalized''"

definition geq_name :: StatusOrder where
  "geq_name a b = (status_name b \<le> status_name a)"

text \<open>\<open>solana.Signature\<close> (64 bytes) and Go's \<open>error\<close> values, by their text.\<close>

type_synonym Signature = string
type_synonym GoError = string

text \<open>\<open>time.Duration\<close>: nanoseconds, a signed integer.\<close>

type_synonym Duration = int

text \<open>
  \<open>rpc.TransactionOpts\<close>, the fields that the repository sets: \<open>SkipPreflight\<close> and the
  optional \<open>MaxRetries\<close> (a \<open>*uint\<close>).
\<close>

record TransactionOpts =
  SkipPreflight :: bool
  MaxRetries :: "nat option"

record SwapOptions =
  SendOptions :: TransactionOpts
  ConfirmationRetries :: int
  ConfirmationRetryTimeout :: Duration
  LastValidBlockHeightBuffer :: nat
  Commitment :: CommitmentType
  ResendInterval :: Duration
  ConfirmationCheckInterval :: Duration
  SkipConfirmationCheck :: bool

text \<open>
  \<open>rpc.SignatureStatusesResult\<close>, the two fields that the loop reads: \<open>Err\<close> (nil when the
  transaction succeeded) and \<open>ConfirmationStatus\<close>.
\<close>

record SignatureStatusesResult =
  Err :: "string option"
  ConfirmationStatus :: ConfirmationStatusType

text \<open>
  What one call of \<open>client.GetSignatureStatuses\<close> returns: an error, or the slice
  \<open>status.Value\<close> of pointers, \<open>None\<close> being a nil pointer (no status known yet).
\<close>

type_synonym StatusResponse = "GoError + SignatureStatusesResult option list"

text \<open>
  The node as the function sees it. \<open>GetSignatureStatuses client i sig\<close> is the answer to
  the status query number \<open>i\<close> (counted from 0) of the call: the sequence of polled
  statuses.
\<close>

record 'tx Client =
  SendTransactionWithOpts :: "'tx \<Rightarrow> TransactionOpts \<Rightarrow> GoError + Signature"
  GetSignatureStatuses :: "nat \<Rightarrow> Signature \<Rightarrow> StatusResponse"

text \<open>The calls to the outside world, as events.\<close>

datatype 'tx Event =
  CallSend 'tx TransactionOpts
| CallStatus Signature
| CallSleep Duration

text \<open>
  The errors of \<open>sendAndConfirmTransaction\<close>, one per \<open>fmt.Errorf\<close> of the source, and the
  run-time panic of \<open>status.Value[0]\<close> on an empty slice.
\<close>

datatype SwapError =
  SendError GoError
| StatusQueryError GoError
| TransactionFailed string
| ConfirmationTimedOut
| IndexOutOfRange

type_synonym 'tx Outcome = "(SwapError + Signature) \<times> 'tx Event list"

section \<open>Submit and confirm\<close>

text \<open>
  The \<open>for\<close> loop of \<open>sendAndConfirmTransaction\<close>, from the iteration \<open>i\<close> on. It returns
  the result of the function and the events of these iterations.
\<close>

function sendAndConfirmTransaction_loop ::
  "StatusOrder \<Rightarrow> 'tx Client \<Rightarrow> SwapOptions \<Rightarrow> Signature \<Rightarrow> nat \<Rightarrow> 'tx Outcome" where
  "sendAndConfirmTransaction_loop geq client options sig i =
     (if int i < ConfirmationRetries options then
        (case GetSignatureStatuses client i sig of
           Inl err \<Rightarrow> (Inl (StatusQueryError err), [CallStatus sig])
         | Inr [] \<Rightarrow> (Inl IndexOutOfRange, [CallStatus sig])
         | Inr (None # _) \<Rightarrow>
             (let (r, es) = sendAndConfirmTransaction_loop geq client options sig (Suc i)
              in (r, CallStatus sig # CallSleep (ConfirmationCheckInterval options) # es))
         | Inr (Some st # _) \<Rightarrow>
             (case Err st of
                Some e \<Rightarrow> (Inl (TransactionFailed e), [CallStatus sig])
              | None \<Rightarrow>
                  if geq (ConfirmationStatus st) ConfirmationStatusFinalized
                  then (Inr sig, [CallStatus sig])
                  else
                    (let (r, es) = sendAndConfirmTransaction_loop geq client options sig (Suc i)
                     in (r, CallStatus sig # CallSleep (ConfirmationCheckInterval options) # es))))
      else (Inl ConfirmationTimedOut, []))"
  by pat_completeness auto
termination
  by (relation "measure (\<lambda>(geq, client, options, sig, i). nat (ConfirmationRetries options - int i))")
     auto

definition sendAndConfirmTransaction ::
  "StatusOrder \<Rightarrow> 'tx Client \<Rightarrow> 'tx \<Rightarrow> SwapOptions \<Rightarrow> 'tx Outcome" where
  "sendAndConfirmTransaction geq client tx options =
     (case SendTransactionWithOpts client tx (SendOptions options) of
        Inl err \<Rightarrow> (Inl (SendError err), [CallSend tx (SendOptions options)])
      | Inr sig \<Rightarrow>
          if SkipConfirmationCheck options
          then (Inr sig, [CallSend tx (SendOptions options)])
          else
            (let (r, es) = sendAndConfirmTransaction_loop geq client options sig 0
             in (r, CallSend tx (SendOptions options) # es)))"

text \<open>The number of status queries among the events.\<close>

fun is_poll :: "'tx Event \<Rightarrow> bool" where
  "is_poll (CallStatus _) = True"
| "is_poll _ = False"

definition polls :: "'tx Event list \<Rightarrow> nat" where
  "polls es = length (filter is_poll es)"

fun is_send :: "'tx Event \<Rightarrow> bool" where
  "is_send (CallSend _ _) = True"
| "is_send _ = False"

definition sends :: "'tx Event list \<Rightarrow> nat" where
  "sends es = length (filter is_send es)"


section \<open>Fetching the quote\<close>

text \<open>
  \<open>SwapResponse\<close> and \<open>SolanaTracker\<close>; the private key is kept as its bytes.
\<close>

record SwapResponse =
  Txn :: string
  ForceLegacy :: bool

record SolanaTracker =
  BaseURL :: string
  RPC :: string
  Keypair :: string

text \<open>
  \<open>url.Values\<close> of Go's package \<open>net/url\<close>, a map from a key to the list of its values,
  as an association list with one entry per key. \<open>lookup v key\<close> is \<open>v[key]\<close> (nil for a
  missing key) and \<open>Add\<close> is \<open>v[key] = append(v[key], value)\<close>.
\<close>

type_synonym Values = "(string \<times> string list) list"

fun lookup :: "Values \<Rightarrow> string \<Rightarrow> string list" where
  "lookup [] key = []"
| "lookup ((k, vs) # v) key = (if k = key then vs else lookup v key)"

fun Add :: "Values \<Rightarrow> string \<Rightarrow> string \<Rightarrow> Values" where
  "Add [] key val = [(key, [val])]"
| "Add ((k, vs) # v) key val =
     (if k = key then (k, vs @ [val]) # v else (k, vs) # Add v key val)"

text \<open>
  \<open>url.QueryEscape\<close>: a space becomes \<open>+\<close>; letters, digits and \<open>-_.~\<close> stay; every
  other byte \<open>c\<close> becomes \<open>%\<close> and the two upper-case hexadecimal digits of \<open>c>>4\<close> and
  \<open>c&15\<close>.
\<close>

definition upperhex :: string where
  "upperhex = ''0123456789ABCDEF''"

definition shouldEscape :: "char \<Rightarrow> bool" where
  "shouldEscape c =
     (if (CHR ''a'' \<le> c \<and> c \<le> CHR ''z'') \<or> (CHR ''A'' \<le> c \<and> c \<le> CHR ''Z'')
         \<or> (CHR ''0'' \<le> c \<and> c \<le> CHR ''9'')
      then False
      else if c = CHR ''-'' \<or> c = CHR ''_'' \<or> c = CHR ''.'' \<or> c = CHR ''~''
      then False
      else True)"

definition escape_byte :: "char \<Rightarrow> string" where
  "escape_byte c =
     (if c = CHR '' '' then ''+''
      else if shouldEscape c
      then [CHR ''%'', upperhex ! (of_char c div 16), upperhex ! (of_char c mod 16)]
      else [c])"

definition QueryEscape :: "string \<Rightarrow> string" where
  "QueryEscape s = concat (map escape_byte s)"

text \<open>
  \<open>Values.Encode\<close>: nothing for an empty map; otherwise the keys are sorted (bytewise,
  as Go sorts strings) and every value is written to the buffer as
  \<open>QueryEscape(key)=QueryEscape(value)\<close>, with \<open>&\<close> before it once the buffer is not
  empty.
\<close>

fun Encode_values :: "string \<Rightarrow> string \<Rightarrow> string list \<Rightarrow> string" where
  "Encode_values buf keyEscaped [] = buf"
| "Encode_values buf keyEscaped (x # xs) =
     Encode_values ((if buf \<noteq> [] then buf @ ''&'' else buf) @ keyEscaped @ ''='' @ QueryEscape x)
       keyEscaped xs"

fun Encode_keys :: "Values \<Rightarrow> string \<Rightarrow> string list \<Rightarrow> string" where
  "Encode_keys v buf [] = buf"
| "Encode_keys v buf (k # keys) =
     Encode_keys v (Encode_values buf (QueryEscape k) (lookup v k)) keys"

definition Encode :: "Values \<Rightarrow> string" where
  "Encode v = (if v = [] then [] else Encode_keys v [] (sort (map fst v)))"

text \<open>
  \<open>strconv.FormatBool\<close>.
\<close>

definition FormatBool :: "bool \<Rightarrow> string" where
  "FormatBool b = (if b then ''true'' else ''false'')"

text \<open>
  A \<open>float64\<close>: not a number, an infinity with its sign, or a finite value given by its
  sign, a mantissa \<open>m\<close> and an exponent \<open>e\<close>, of value \<open>m\<close> times 2 to the power \<open>e\<close>
  (\<open>m\<close> below 2 to the 53, \<open>e\<close> from -1074 to 971; the first argument is true for a
  negative value).
\<close>

datatype float64 = Finite bool nat int | Infinite bool | NaN

text \<open>
  \<open>fmt.Sprintf("%f", x)\<close>: the verb \<open>%f\<close> without a precision prints six digits after
  the decimal point, the exact value being rounded to the nearest millionth, a tie to
  the even one. \<open>decimal\<close> writes a natural number in base ten, \<open>round_half_even n d\<close> is
  \<open>n / d\<close> rounded, and \<open>millionths m e\<close> is the value in millionths, rounded.
\<close>

definition decimal_digit :: "nat \<Rightarrow> char" where
  "decimal_digit d = ''0123456789'' ! d"

function decimal :: "nat \<Rightarrow> string" where
  "decimal n =
     (if n < 10 then [decimal_digit n]
      else decimal (n div 10) @ [decimal_digit (n mod 10)])"
  by pat_completeness auto
termination
proof (relation "measure (\<lambda>n. n)")
  show "wf (measure (\<lambda>n. n))" by simp
next
  fix n :: nat
  assume "\<not> n < 10"
  then have "n div 10 < n" by (intro div_less_dividend) simp_all
  then show "(n div 10, n) \<in> measure (\<lambda>n. n)" by simp
qed

definition round_half_even :: "nat \<Rightarrow> nat \<Rightarrow> nat" where
  "round_half_even n d =
     (let q = n div d; r = n mod d
      in if d < 2 * r then q + 1
         else if 2 * r = d \<and> odd q then q + 1
         else q)"

definition millionths :: "nat \<Rightarrow> int \<Rightarrow> nat" where
  "millionths m e =
     (if 0 \<le> e then m * 2 ^ nat e * 1000000
      else round_half_even (m * 1000000) (2 ^ nat (- e)))"

fun Sprintf_f :: "float64 \<Rightarrow> string" where
  "Sprintf_f NaN = ''NaN''"
| "Sprintf_f (Infinite neg) = (if neg then ''-Inf'' else ''+Inf'')"
| "Sprintf_f (Finite neg m e) =
     (let q = millionths m e
      in (if neg then ''-'' else []) @ decimal (q div 1000000) @ ''.'' @
         map (\<lambda>i. decimal_digit (q div 10 ^ i mod 10)) [5, 4, 3, 2, 1, 0])"

text \<open>
  What \<open>GetSwapInstructions\<close> takes from the network and from the JSON library, as
  parameters: \<open>http.Get\<close> as the body of the answer or an error, and the decoder into a
  \<open>SwapResponse\<close>.
\<close>

record Library =
  http_Get :: "string \<Rightarrow> GoError + string"
  json_Decode :: "string \<Rightarrow> GoError + SwapResponse"

text \<open>
  The query parameters of \<open>GetSwapInstructions\<close> (the \<open>params.Add\<close> calls), and the
  function: it requests the URL, decodes the body and overwrites \<open>ForceLegacy\<close>.
\<close>

definition GetSwapInstructions_params ::
  "string \<Rightarrow> string \<Rightarrow> float64 \<Rightarrow> float64 \<Rightarrow> string \<Rightarrow> float64 option \<Rightarrow> bool \<Rightarrow> Values" where
  "GetSwapInstructions_params fromToken toToken fromAmount slippage payer priorityFee forceLegacy =
     (let params = [];
          params = Add params ''from'' fromToken;
          params = Add params ''to'' toToken;
          params = Add params ''fromAmount'' (Sprintf_f fromAmount);
          params = Add params ''slippage'' (Sprintf_f slippage);
          params = Add params ''payer'' payer;
          params = Add params ''forceLegacy'' (FormatBool forceLegacy)
      in case priorityFee of
           None \<Rightarrow> params
         | Some fee \<Rightarrow> Add params ''priorityFee'' (Sprintf_f fee))"

datatype QuoteError = FetchError GoError | DecodeError GoError

definition GetSwapInstructions ::
  "Library \<Rightarrow> SolanaTracker \<Rightarrow> string \<Rightarrow> string \<Rightarrow> float64 \<Rightarrow> float64 \<Rightarrow> string
     \<Rightarrow> float64 option \<Rightarrow> bool \<Rightarrow> QuoteError + SwapResponse" where
  "GetSwapInstructions lib st fromToken toToken fromAmount slippage payer priorityFee forceLegacy =
     (let params = GetSwapInstructions_params fromToken toToken fromAmount slippage payer
                     priorityFee forceLegacy;
          url = BaseURL st @ ''/swap?'' @ Encode params
      in case http_Get lib url of
           Inl err \<Rightarrow> Inl (FetchError err)
         | Inr body \<Rightarrow>
             (case json_Decode lib body of
                Inl err \<Rightarrow> Inl (DecodeError err)
              | Inr swapResp \<Rightarrow> Inr (swapResp\<lparr>ForceLegacy := forceLegacy\<rparr>)))"

section \<open>Notions used to state the properties\<close>

text \<open>
  The status that a poll reports for the signature: the entry \<open>status.Value[0]\<close> of a
  successful query, when it is not nil.
\<close>

fun reported_status :: "StatusResponse \<Rightarrow> SignatureStatusesResult option" where
  "reported_status (Inr (Some st # _)) = Some st"
| "reported_status _ = None"

text \<open>
  The answers after which the loop sleeps and polls again: the query succeeded and its
  first entry is nil, or it has no error and its confirmation status fails the test
  \<open>>= rpc.ConfirmationStatusFinalized\<close> of the loop.
\<close>

fun keeps_polling :: "StatusOrder \<Rightarrow> StatusResponse \<Rightarrow> bool" where
  "keeps_polling geq (Inr (None # _)) = True"
| "keeps_polling geq (Inr (Some st # _)) =
     (Err st = None \<and> \<not> geq (ConfirmationStatus st) ConfirmationStatusFinalized)"
| "keeps_polling geq _ = False"

text \<open>The options of \<open>example.go\<close>.\<close>

definition example_options :: SwapOptions where
  "example_options =
     \<lparr>SendOptions = \<lparr>SkipPreflight = True, MaxRetries = Some 5\<rparr>,
      ConfirmationRetries = 50,
      ConfirmationRetryTimeout = 1000000000,
      LastValidBlockHeightBuffer = 200,
      Commitment = CommitmentProcessed,
      ResendInterval = 1500000000,
      ConfirmationCheckInterval = 100000000,
      SkipConfirmationCheck = False\<rparr>"

text \<open>
  A mock node: the send returns \<open>sent\<close>, and the status queries return the answers \<open>rs\<close> in
  turn, then "no status yet" for ever.
\<close>

definition mock_client :: "GoError + Signature \<Rightarrow> StatusResponse list \<Rightarrow> string Client" where
  "mock_client sent rs =
     \<lparr>SendTransactionWithOpts = (\<lambda>tx opts. sent),
      GetSignatureStatuses = (\<lambda>i sig. if i < length rs then rs ! i else Inr [None])\<rparr>"

text \<open>The answer of a node that reports the status \<open>c\<close> and no error.\<close>

definition status_of :: "ConfirmationStatusType \<Rightarrow> StatusResponse" where
  "status_of c = Inr [Some \<lparr>Err = None, ConfirmationStatus = c\<rparr>]"

text \<open>
  How a reader of a query string finds its fields, as \<open>url.ParseQuery\<close> does: the string
  is cut at every \<open>&\<close>, empty pieces are skipped, each piece is cut at its first \<open>=\<close>, and
  both parts are unescaped (\<open>+\<close> is a space, \<open>%\<close> and two hexadecimal digits are a byte).
\<close>

definition unhex :: "char \<Rightarrow> nat" where
  "unhex c =
     (if CHR ''0'' \<le> c \<and> c \<le> CHR ''9'' then of_char c - 48
      else if CHR ''a'' \<le> c \<and> c \<le> CHR ''f'' then of_char c - 87
      else if CHR ''A'' \<le> c \<and> c \<le> CHR ''F'' then of_char c - 55
      else 0)"

fun QueryUnescape :: "string \<Rightarrow> string" where
  "QueryUnescape (c # h # l # rest) =
     (if c = CHR ''%'' then char_of (16 * unhex h + unhex l) # QueryUnescape rest
      else (if c = CHR ''+'' then CHR '' '' else c) # QueryUnescape (h # l # rest))"
| "QueryUnescape (c # rest) = (if c = CHR ''+'' then CHR '' '' else c) # QueryUnescape rest"
| "QueryUnescape [] = []"

fun split_on :: "char \<Rightarrow> string \<Rightarrow> string list" where
  "split_on d [] = [[]]"
| "split_on d (c # cs) =
     (if c = d then [] # split_on d cs
      else (case split_on d cs of x # xs \<Rightarrow> (c # x) # xs | [] \<Rightarrow> [[c]]))"

definition query_field :: "string \<Rightarrow> string \<times> string" where
  "query_field p =
     (QueryUnescape (takeWhile (\<lambda>c. c \<noteq> CHR ''='') p),
      QueryUnescape (drop 1 (dropWhile (\<lambda>c. c \<noteq> CHR ''='') p)))"

definition query_fields :: "string \<Rightarrow> (string \<times> string) list" where
  "query_fields q = map query_field (filter (\<lambda>p. p \<noteq> []) (split_on (CHR ''&'') q))"

text \<open>
  A mock library: a fixed answer of the quoting service and a fixed result of the decoder.
\<close>

definition mock_library :: "GoError + string \<Rightarrow> GoError + SwapResponse \<Rightarrow> Library" where
  "mock_library got decoded =
     \<lparr>http_Get = (\<lambda>url. got),
      json_Decode = (\<lambda>body. decoded)\<rparr>"

text \<open>
  The \<open>float64\<close> values of some Go literals: \<open>0.0001\<close>, \<open>0.00005\<close> and \<open>30\<close> of
  \<open>example.go\<close> (\<open>0x1.a36e2eb1c432dp-14\<close>, \<open>0x1.a36e2eb1c432dp-15\<close>, \<open>0x1.ep+4\<close>), and
  \<open>0.0000001\<close> (\<open>0x1.ad7f29abcaf48p-24\<close>).
\<close>

definition float_0_0001 :: float64 where
  "float_0_0001 = Finite False 7378697629483821 (- 66)"

definition float_0_00005 :: float64 where
  "float_0_00005 = Finite False 7378697629483821 (- 67)"

definition float_30 :: float64 where
  "float_30 = Finite False 15 1"

definition float_0_0000001 :: float64 where
  "float_0_0000001 = Finite False 944473296573929 (- 73)"

section \<open>The polling loop\<close>

declare sendAndConfirmTransaction_loop.simps [simp del]

lemma loop_exhausted:
  "ConfirmationRetries options \<le> int i \<Longrightarrow>
   sendAndConfirmTransaction_loop geq client options sig i = (Inl ConfirmationTimedOut, [])"
  by (simp add: sendAndConfirmTransaction_loop.simps)

lemma loop_continue:
  assumes "int i < ConfirmationRetries options"
    and "keeps_polling geq (GetSignatureStatuses client i sig)"
  shows "sendAndConfirmTransaction_loop geq client options sig i =
     (fst (sendAndConfirmTransaction_loop geq client options sig (Suc i)),
      CallStatus sig # CallSleep (ConfirmationCheckInterval options) #
      snd (sendAndConfirmTransaction_loop geq client options sig (Suc i)))"
proof (cases "GetSignatureStatuses client i sig")
  case (Inl err)
  with assms(2) show ?thesis by simp
next
  case (Inr vs)
  show ?thesis
  proof (cases vs)
    case Nil
    with Inr assms(2) show ?thesis by simp
  next
    case (Cons v rest)
    show ?thesis
    proof (cases v)
      case None
      with Inr Cons assms(1) show ?thesis
        by (subst sendAndConfirmTransaction_loop.simps) (simp add: case_prod_beta)
    next
      case (Some st)
      with Inr Cons assms show ?thesis
        by (subst sendAndConfirmTransaction_loop.simps) (simp add: case_prod_beta)
    qed
  qed
qed

lemma loop_stop:
  assumes "int i < ConfirmationRetries options"
    and "\<not> keeps_polling geq (GetSignatureStatuses client i sig)"
  shows "snd (sendAndConfirmTransaction_loop geq client options sig i) = [CallStatus sig]"
  using assms
  by (subst sendAndConfirmTransaction_loop.simps)
     (auto split: sum.splits list.splits option.splits)

lemma loop_failed:
  assumes "int i < ConfirmationRetries options"
    and "reported_status (GetSignatureStatuses client i sig) = Some st"
    and "Err st = Some e"
  shows "sendAndConfirmTransaction_loop geq client options sig i =
     (Inl (TransactionFailed e), [CallStatus sig])"
  using assms
  by (subst sendAndConfirmTransaction_loop.simps)
     (auto split: sum.splits list.splits option.splits)

lemma loop_confirmed:
  assumes "int i < ConfirmationRetries options"
    and "reported_status (GetSignatureStatuses client i sig) = Some st"
    and "Err st = None"
    and "geq (ConfirmationStatus st) ConfirmationStatusFinalized"
  shows "sendAndConfirmTransaction_loop geq client options sig i =
     (Inr sig, [CallStatus sig])"
  using assms
  by (subst sendAndConfirmTransaction_loop.simps)
     (auto split: sum.splits list.splits option.splits)


lemma keeps_polling_reported:
  "keeps_polling geq resp \<Longrightarrow> reported_status resp = Some st \<Longrightarrow>
   Err st = None \<and> \<not> geq (ConfirmationStatus st) ConfirmationStatusFinalized"
  by (induction geq resp rule: keeps_polling.induct) auto

lemma polls_simps [simp]:
  "polls [] = 0"
  "polls (CallStatus s # es) = Suc (polls es)"
  "polls (CallSleep d # es) = polls es"
  "polls (CallSend tx opts # es) = polls es"
  by (simp_all add: polls_def)

lemma sends_simps [simp]:
  "sends [] = 0"
  "sends (CallStatus s # es) = sends es"
  "sends (CallSleep d # es) = sends es"
  "sends (CallSend tx opts # es) = Suc (sends es)"
  by (simp_all add: sends_def)

lemma loop_all_polling:
  assumes "\<forall>j. i \<le> j \<and> int j < ConfirmationRetries options \<longrightarrow>
             keeps_polling geq (GetSignatureStatuses client j sig)"
  shows "sendAndConfirmTransaction_loop geq client options sig i =
     (Inl ConfirmationTimedOut,
      concat (replicate (nat (ConfirmationRetries options) - i)
        [CallStatus sig, CallSleep (ConfirmationCheckInterval options)]))"
  using assms
proof (induction "nat (ConfirmationRetries options) - i" arbitrary: i)
  case 0
  then have "ConfirmationRetries options \<le> int i" by linarith
  with 0 show ?case by (simp add: loop_exhausted)
next
  case (Suc n)
  then have lt: "int i < ConfirmationRetries options" by linarith
  with Suc.prems have kp: "keeps_polling geq (GetSignatureStatuses client i sig)" by simp
  have n: "n = nat (ConfirmationRetries options) - Suc i" using Suc.hyps(2) by linarith
  have "\<forall>j. Suc i \<le> j \<and> int j < ConfirmationRetries options \<longrightarrow>
             keeps_polling geq (GetSignatureStatuses client j sig)"
    using Suc.prems by simp
  from Suc.hyps(1) [OF n this] loop_continue [OF lt kp] Suc.hyps(2) [symmetric] n
  show ?case by simp
qed

lemma polls_all_polling:
  "polls (concat (replicate n [CallStatus sig, CallSleep d])) = n"
  by (induction n) simp_all

lemma loop_no_send: "sends (snd (sendAndConfirmTransaction_loop geq client options sig i)) = 0"
proof (induction "nat (ConfirmationRetries options) - i" arbitrary: i)
  case 0
  then have "ConfirmationRetries options \<le> int i" by linarith
  then show ?case by (simp add: loop_exhausted)
next
  case (Suc n)
  then have lt: "int i < ConfirmationRetries options" by linarith
  have n: "n = nat (ConfirmationRetries options) - Suc i" using Suc.hyps(2) by linarith
  show ?case
  proof (cases "keeps_polling geq (GetSignatureStatuses client i sig)")
    case True
    from loop_continue [OF lt True] Suc.hyps(1) [OF n] show ?thesis by simp
  next
    case False
    from loop_stop [OF lt False] show ?thesis by simp
  qed
qed

lemma loop_failed_at:
  assumes "reported_status (GetSignatureStatuses client (i + k) sig) = Some st"
    and "Err st = Some e"
    and "k < polls (snd (sendAndConfirmTransaction_loop geq client options sig i))"
  shows "fst (sendAndConfirmTransaction_loop geq client options sig i) = Inl (TransactionFailed e)
       \<and> polls (snd (sendAndConfirmTransaction_loop geq client options sig i)) = Suc k"
  using assms
proof (induction k arbitrary: i)
  case 0
  have lt: "int i < ConfirmationRetries options"
  proof (rule ccontr)
    assume "\<not> int i < ConfirmationRetries options"
    then have "ConfirmationRetries options \<le> int i" by simp
    with 0(3) show False by (simp add: loop_exhausted)
  qed
  from 0 loop_failed [OF lt, of client sig st e geq] show ?case by simp
next
  case (Suc k)
  have lt: "int i < ConfirmationRetries options"
  proof (rule ccontr)
    assume "\<not> int i < ConfirmationRetries options"
    then have "ConfirmationRetries options \<le> int i" by simp
    with Suc.prems(3) show False by (simp add: loop_exhausted)
  qed
  show ?case
  proof (cases "keeps_polling geq (GetSignatureStatuses client i sig)")
    case True
    from loop_continue [OF lt True] Suc.prems Suc.IH [of "Suc i"] show ?thesis by simp
  next
    case False
    from loop_stop [OF lt False] Suc.prems(3) show ?thesis by simp
  qed
qed

lemma loop_confirmed_at:
  assumes "reported_status (GetSignatureStatuses client (i + k) sig) = Some st"
    and "Err st = None"
    and "geq (ConfirmationStatus st) ConfirmationStatusFinalized"
    and "k < polls (snd (sendAndConfirmTransaction_loop geq client options sig i))"
  shows "fst (sendAndConfirmTransaction_loop geq client options sig i) = Inr sig
       \<and> polls (snd (sendAndConfirmTransaction_loop geq client options sig i)) = Suc k"
  using assms
proof (induction k arbitrary: i)
  case 0
  have lt: "int i < ConfirmationRetries options"
  proof (rule ccontr)
    assume "\<not> int i < ConfirmationRetries options"
    then have "ConfirmationRetries options \<le> int i" by simp
    with 0(4) show False by (simp add: loop_exhausted)
  qed
  from 0 loop_confirmed [OF lt, of client sig st geq] show ?case by simp
next
  case (Suc k)
  have lt: "int i < ConfirmationRetries options"
  proof (rule ccontr)
    assume "\<not> int i < ConfirmationRetries options"
    then have "ConfirmationRetries options \<le> int i" by simp
    with Suc.prems(4) show False by (simp add: loop_exhausted)
  qed
  show ?case
  proof (cases "keeps_polling geq (GetSignatureStatuses client i sig)")
    case True
    from loop_continue [OF lt True] Suc.prems Suc.IH [of "Suc i"] show ?thesis by simp
  next
    case False
    from loop_stop [OF lt False] Suc.prems(4) show ?thesis by simp
  qed
qed

lemma loop_same_options:
  assumes "ConfirmationRetries options' = ConfirmationRetries options"
    and "ConfirmationCheckInterval options' = ConfirmationCheckInterval options"
  shows "sendAndConfirmTransaction_loop geq client options' sig i =
         sendAndConfirmTransaction_loop geq client options sig i"
proof (induction "nat (ConfirmationRetries options) - i" arbitrary: i)
  case 0
  then have "ConfirmationRetries options \<le> int i" by linarith
  with assms show ?case by (simp add: loop_exhausted)
next
  case (Suc n)
  have n: "n = nat (ConfirmationRetries options) - Suc i" using Suc.hyps(2) by linarith
  from Suc.hyps(1) [OF n] assms show ?case
    by (subst (1 2) sendAndConfirmTransaction_loop.simps)
       (simp split: sum.splits list.splits option.splits)
qed

lemma loop_polls_bound:
  "int i + int (polls (snd (sendAndConfirmTransaction_loop geq client options sig i)))
     \<le> max (int i) (ConfirmationRetries options)"
proof (induction "nat (ConfirmationRetries options) - i" arbitrary: i)
  case 0
  then have "ConfirmationRetries options \<le> int i" by linarith
  then show ?case by (simp add: loop_exhausted)
next
  case (Suc n)
  then have lt: "int i < ConfirmationRetries options" by linarith
  have n: "n = nat (ConfirmationRetries options) - Suc i" using Suc.hyps(2) by linarith
  show ?case
  proof (cases "keeps_polling geq (GetSignatureStatuses client i sig)")
    case True
    from loop_continue [OF lt True] Suc.hyps(1) [OF n] lt show ?thesis by simp
  next
    case False
    from loop_stop [OF lt False] lt show ?thesis by simp
  qed
qed

lemmas run_defs = sendAndConfirmTransaction_def mock_client_def example_options_def status_of_def
  sendAndConfirmTransaction_loop.simps

lemma loop_reaches:
  assumes "\<forall>j. i \<le> j \<and> j < i + m \<longrightarrow> keeps_polling geq (GetSignatureStatuses client j sig)"
    and "int (i + m) < ConfirmationRetries options"
  shows "m < polls (snd (sendAndConfirmTransaction_loop geq client options sig i))"
  using assms
proof (induction m arbitrary: i)
  case 0
  then have lt: "int i < ConfirmationRetries options" by simp
  show ?case
  proof (cases "keeps_polling geq (GetSignatureStatuses client i sig)")
    case True
    from loop_continue [OF lt True] show ?thesis by simp
  next
    case False
    from loop_stop [OF lt False] show ?thesis by simp
  qed
next
  case (Suc m)
  then have lt: "int i < ConfirmationRetries options" by simp
  from Suc.prems(1) have kp: "keeps_polling geq (GetSignatureStatuses client i sig)" by simp
  have later: "\<forall>j. Suc i \<le> j \<and> j < Suc i + m \<longrightarrow>
      keeps_polling geq (GetSignatureStatuses client j sig)"
    using Suc.prems(1) by simp
  have bound: "int (Suc i + m) < ConfirmationRetries options"
    using Suc.prems(2) by simp
  from Suc.IH [OF later bound] loop_continue [OF lt kp] show ?case by simp
qed

text \<open>
  The call makes a \<open>k\<close>-th status query when the send succeeds, the confirmation check is
  not skipped, \<open>k\<close> is at most \<open>ConfirmationRetries\<close> and the answers before it keep the
  loop polling.
\<close>

lemma attempt_is_made:
  assumes "\<not> SkipConfirmationCheck options"
    and "SendTransactionWithOpts client tx (SendOptions options) = Inr sig"
    and "1 \<le> k" and "int k \<le> ConfirmationRetries options"
    and "\<forall>j. j < k - 1 \<longrightarrow> keeps_polling geq (GetSignatureStatuses client j sig)"
  shows "k \<le> polls (snd (sendAndConfirmTransaction geq client tx options))"
proof -
  from assms(5) have "\<forall>j. 0 \<le> j \<and> j < 0 + (k - 1) \<longrightarrow>
      keeps_polling geq (GetSignatureStatuses client j sig)"
    by simp
  moreover from assms(3,4) have "int (0 + (k - 1)) < ConfirmationRetries options"
    by linarith
  ultimately have "k - 1 < polls (snd (sendAndConfirmTransaction_loop geq client options sig 0))"
    by (rule loop_reaches)
  with assms(1,2,3) show ?thesis
    by (simp add: sendAndConfirmTransaction_def case_prod_beta)
qed

text \<open>
  Early return: if the call makes a \<open>k\<close>-th status query and the status it reports has no
  error and passes the test of the loop, the call returns the signature after exactly
  \<open>k\<close> status queries.
\<close>

lemma accepted_status_ends_polling:
  assumes "SendTransactionWithOpts client tx (SendOptions options) = Inr sig"
    and "1 \<le> k"
    and "k \<le> polls (snd (sendAndConfirmTransaction geq client tx options))"
    and "reported_status (GetSignatureStatuses client (k - 1) sig) = Some st"
    and "Err st = None"
    and "geq (ConfirmationStatus st) ConfirmationStatusFinalized"
  shows "fst (sendAndConfirmTransaction geq client tx options) = Inr sig
       \<and> polls (snd (sendAndConfirmTransaction geq client tx options)) = k"
proof -
  have ns: "\<not> SkipConfirmationCheck options"
    using assms(1,2,3) by (auto simp: sendAndConfirmTransaction_def)
  then have run: "sendAndConfirmTransaction geq client tx options =
      (fst (sendAndConfirmTransaction_loop geq client options sig 0),
       CallSend tx (SendOptions options) # snd (sendAndConfirmTransaction_loop geq client options sig 0))"
    using assms(1) by (simp add: sendAndConfirmTransaction_def case_prod_beta)
  with assms(2,3) have lt: "k - 1 < polls (snd (sendAndConfirmTransaction_loop geq client options sig 0))"
    by simp
  from assms(4) have r: "reported_status (GetSignatureStatuses client (0 + (k - 1)) sig) = Some st"
    by simp
  from loop_confirmed_at [OF r assms(5,6) lt] run assms(2) show ?thesis
    by simp
qed

text \<open>
  The field \<open>Commitment\<close> of the options is not read: changing it changes nothing.
\<close>

lemma commitment_field_ignored:
  "sendAndConfirmTransaction geq client tx (options\<lparr>Commitment := c\<rparr>)
   = sendAndConfirmTransaction geq client tx options"
proof -
  have "\<And>sig. sendAndConfirmTransaction_loop geq client (options\<lparr>Commitment := c\<rparr>) sig 0
        = sendAndConfirmTransaction_loop geq client options sig 0"
    by (rule loop_same_options) simp_all
  then show ?thesis
    by (simp add: sendAndConfirmTransaction_def split: sum.splits)
qed

text \<open>
  The two readings of \<open>>=\<close> differ on the status processed. With three polls that all
  report processed, the level order lets the call time out after three polls; the order
  of the names (\<open>"processed" >= "finalized"\<close> as strings) returns the signature at the
  first poll.
\<close>

lemma processed_status_under_both_orders:
  "sendAndConfirmTransaction geq_level
     (mock_client (Inr ''sig'')
        [status_of ConfirmationStatusProcessed, status_of ConfirmationStatusProcessed,
         status_of ConfirmationStatusProcessed])
     ''tx'' (example_options\<lparr>ConfirmationRetries := 3, Commitment := CommitmentFinalized\<rparr>)
   = (Inl ConfirmationTimedOut,
      [CallSend ''tx'' \<lparr>SkipPreflight = True, MaxRetries = Some 5\<rparr>,
       CallStatus ''sig'', CallSleep 100000000, CallStatus ''sig'', CallSleep 100000000,
       CallStatus ''sig'', CallSleep 100000000])
   \<and>
   sendAndConfirmTransaction geq_name
     (mock_client (Inr ''sig'')
        [status_of ConfirmationStatusProcessed, status_of ConfirmationStatusProcessed,
         status_of ConfirmationStatusProcessed])
     ''tx'' (example_options\<lparr>ConfirmationRetries := 3, Commitment := CommitmentFinalized\<rparr>)
   = (Inr ''sig'',
      [CallSend ''tx'' \<lparr>SkipPreflight = True, MaxRetries = Some 5\<rparr>, CallStatus ''sig''])"
  by (simp add: run_defs geq_level_def geq_name_def)

section \<open>Properties of submit and confirm\<close>

text \<open>
  Claim C1, at a concrete input. The options require the commitment level confirmed and
  allow three polls; the node accepts the transaction and reports the status confirmed,
  without error, at each poll. The reported level equals the configured one at the first
  poll, yet the call polls three times and ends with the time-out error: the loop compares
  the status with the fixed \<open>rpc.ConfirmationStatusFinalized\<close> and never reads
  \<open>options.Commitment\<close>. The result is the same under both readings of \<open>>=\<close>.
\<close>

theorem commitment_option_not_consulted:
  "sendAndConfirmTransaction geq_level
     (mock_client (Inr ''sig'')
        [status_of ConfirmationStatusConfirmed, status_of ConfirmationStatusConfirmed,
         status_of ConfirmationStatusConfirmed])
     ''tx'' (example_options\<lparr>ConfirmationRetries := 3, Commitment := CommitmentConfirmed\<rparr>)
   = (Inl ConfirmationTimedOut,
      [CallSend ''tx'' \<lparr>SkipPreflight = True, MaxRetries = Some 5\<rparr>,
       CallStatus ''sig'', CallSleep 100000000, CallStatus ''sig'', CallSleep 100000000,
       CallStatus ''sig'', CallSleep 100000000])
   \<and>
   sendAndConfirmTransaction geq_name
     (mock_client (Inr ''sig'')
        [status_of ConfirmationStatusConfirmed, status_of ConfirmationStatusConfirmed,
         status_of ConfirmationStatusConfirmed])
     ''tx'' (example_options\<lparr>ConfirmationRetries := 3, Commitment := CommitmentConfirmed\<rparr>)
   = (Inl ConfirmationTimedOut,
      [CallSend ''tx'' \<lparr>SkipPreflight = True, MaxRetries = Some 5\<rparr>,
       CallStatus ''sig'', CallSleep 100000000, CallStatus ''sig'', CallSleep 100000000,
       CallStatus ''sig'', CallSleep 100000000])"
  by (simp add: run_defs geq_level_def geq_name_def)

text \<open>
  Claim C2. The fields \<open>ConfirmationRetryTimeout\<close>, \<open>LastValidBlockHeightBuffer\<close> and
  \<open>ResendInterval\<close> are not read: two runs against the same node whose options differ
  in these fields only have the same result and the same events, so the same number of
  polls.
\<close>

theorem unused_option_fields_ignored:
  "sendAndConfirmTransaction geq client tx
     (options\<lparr>ConfirmationRetryTimeout := t, LastValidBlockHeightBuffer := b, ResendInterval := r\<rparr>)
   = sendAndConfirmTransaction geq client tx options"
proof -
  have "\<And>sig. sendAndConfirmTransaction_loop geq client
          (options\<lparr>ConfirmationRetryTimeout := t, LastValidBlockHeightBuffer := b, ResendInterval := r\<rparr>) sig 0
        = sendAndConfirmTransaction_loop geq client options sig 0"
    by (rule loop_same_options) simp_all
  then show ?thesis
    by (simp add: sendAndConfirmTransaction_def split: sum.splits)
qed

text \<open>
  An instance of C2: three retries, a poll every 100 ms, a node that never has a status.
  With \<open>ConfirmationRetryTimeout\<close> at 1 ms, no block-height buffer and \<open>ResendInterval\<close> at
  1 ms, the call still makes its three polls and sleeps 300 ms in all, exactly as with
  the values of \<open>example.go\<close>.
\<close>

theorem unused_option_fields_ignored_witness:
  "sendAndConfirmTransaction geq_level (mock_client (Inr ''sig'') []) ''tx''
     ((example_options\<lparr>ConfirmationRetries := 3\<rparr>)
        \<lparr>ConfirmationRetryTimeout := 1000000, LastValidBlockHeightBuffer := 0,
           ResendInterval := 1000000\<rparr>)
   = sendAndConfirmTransaction geq_level (mock_client (Inr ''sig'') []) ''tx''
       (example_options\<lparr>ConfirmationRetries := 3\<rparr>)
   \<and> sendAndConfirmTransaction geq_level (mock_client (Inr ''sig'') []) ''tx''
       (example_options\<lparr>ConfirmationRetries := 3\<rparr>)
     = (Inl ConfirmationTimedOut,
        [CallSend ''tx'' \<lparr>SkipPreflight = True, MaxRetries = Some 5\<rparr>,
         CallStatus ''sig'', CallSleep 100000000, CallStatus ''sig'', CallSleep 100000000,
         CallStatus ''sig'', CallSleep 100000000])"
proof -
  have "sendAndConfirmTransaction geq_level (mock_client (Inr ''sig'') []) ''tx''
       (example_options\<lparr>ConfirmationRetries := 3\<rparr>)
     = (Inl ConfirmationTimedOut,
        [CallSend ''tx'' \<lparr>SkipPreflight = True, MaxRetries = Some 5\<rparr>,
         CallStatus ''sig'', CallSleep 100000000, CallStatus ''sig'', CallSleep 100000000,
         CallStatus ''sig'', CallSleep 100000000])"
    by (simp add: run_defs)
  with unused_option_fields_ignored
    [where geq = geq_level and client = "mock_client (Inr ''sig'') []" and tx = "''tx''"
       and options = "example_options\<lparr>ConfirmationRetries := 3\<rparr>"
       and t = 1000000 and b = 0 and r = 1000000]
  show ?thesis by (simp only:)
qed

text \<open>
  Claim C3. With \<open>SkipConfirmationCheck\<close> set and a send that succeeds, the call returns
  the signature right after the send: the send is its only event, and it makes no status
  query.
\<close>

theorem skip_confirmation_returns_after_send:
  assumes "SkipConfirmationCheck options"
    and "SendTransactionWithOpts client tx (SendOptions options) = Inr sig"
  shows "sendAndConfirmTransaction geq client tx options =
           (Inr sig, [CallSend tx (SendOptions options)])
       \<and> polls (snd (sendAndConfirmTransaction geq client tx options)) = 0"
  using assms by (simp add: sendAndConfirmTransaction_def)

text \<open>
  An instance of C3: the options of \<open>example.go\<close> with \<open>SkipConfirmationCheck\<close> set.
\<close>

theorem skip_confirmation_returns_after_send_witness:
  "SkipConfirmationCheck (example_options\<lparr>SkipConfirmationCheck := True\<rparr>)
   \<and> SendTransactionWithOpts (mock_client (Inr ''sig'') [Inl ''unreachable''])
        ''tx'' (SendOptions (example_options\<lparr>SkipConfirmationCheck := True\<rparr>)) = Inr ''sig''
   \<and> sendAndConfirmTransaction geq_level (mock_client (Inr ''sig'') [Inl ''unreachable''])
        ''tx'' (example_options\<lparr>SkipConfirmationCheck := True\<rparr>)
      = (Inr ''sig'', [CallSend ''tx'' \<lparr>SkipPreflight = True, MaxRetries = Some 5\<rparr>])
   \<and> polls (snd (sendAndConfirmTransaction geq_level (mock_client (Inr ''sig'') [Inl ''unreachable''])
        ''tx'' (example_options\<lparr>SkipConfirmationCheck := True\<rparr>))) = 0"
  using skip_confirmation_returns_after_send
    [of "example_options\<lparr>SkipConfirmationCheck := True\<rparr>"
        "mock_client (Inr ''sig'') [Inl ''unreachable'']" "''tx''" "''sig''" geq_level]
  by (simp add: mock_client_def example_options_def)

text \<open>
  Claim C4, at a concrete input. The options require the commitment level finalized and
  allow three polls; the node accepts the transaction, and each status query succeeds
  and reports the status processed without error. Processed is below finalized in the
  order of the levels, so no poll reports a sufficient commitment or a transaction
  error; yet, with the order of the names that Go's \<open>>=\<close> gives on strings, the test of
  the loop accepts processed: the call returns the signature after one poll, without a
  sleep, instead of the time-out error after three polls.
\<close>

theorem processed_status_confirms_without_timeout:
  "\<not> SkipConfirmationCheck (example_options\<lparr>ConfirmationRetries := 3, Commitment := CommitmentFinalized\<rparr>)
   \<and> Commitment (example_options\<lparr>ConfirmationRetries := 3, Commitment := CommitmentFinalized\<rparr>)
       = CommitmentFinalized
   \<and> \<not> geq_level ConfirmationStatusProcessed ConfirmationStatusFinalized
   \<and> GetSignatureStatuses
        (mock_client (Inr ''sig'')
           [status_of ConfirmationStatusProcessed, status_of ConfirmationStatusProcessed,
            status_of ConfirmationStatusProcessed]) 0 ''sig''
       = Inr [Some \<lparr>Err = None, ConfirmationStatus = ConfirmationStatusProcessed\<rparr>]
   \<and> GetSignatureStatuses
        (mock_client (Inr ''sig'')
           [status_of ConfirmationStatusProcessed, status_of ConfirmationStatusProcessed,
            status_of ConfirmationStatusProcessed]) 1 ''sig''
       = Inr [Some \<lparr>Err = None, ConfirmationStatus = ConfirmationStatusProcessed\<rparr>]
   \<and> GetSignatureStatuses
        (mock_client (Inr ''sig'')
           [status_of ConfirmationStatusProcessed, status_of ConfirmationStatusProcessed,
            status_of ConfirmationStatusProcessed]) 2 ''sig''
       = Inr [Some \<lparr>Err = None, ConfirmationStatus = ConfirmationStatusProcessed\<rparr>]
   \<and> sendAndConfirmTransaction geq_name
        (mock_client (Inr ''sig'')
           [status_of ConfirmationStatusProcessed, status_of ConfirmationStatusProcessed,
            status_of ConfirmationStatusProcessed])
        ''tx'' (example_options\<lparr>ConfirmationRetries := 3, Commitment := CommitmentFinalized\<rparr>)
      = (Inr ''sig'',
         [CallSend ''tx'' \<lparr>SkipPreflight = True, MaxRetries = Some 5\<rparr>, CallStatus ''sig''])
   \<and> polls (snd (sendAndConfirmTransaction geq_name
        (mock_client (Inr ''sig'')
           [status_of ConfirmationStatusProcessed, status_of ConfirmationStatusProcessed,
            status_of ConfirmationStatusProcessed])
        ''tx'' (example_options\<lparr>ConfirmationRetries := 3, Commitment := CommitmentFinalized\<rparr>))) = 1"
  by (simp add: run_defs geq_level_def geq_name_def)

text \<open>
  A status query that itself fails ends the call with the error of the query: with three
  retries and a node whose first status query returns an error, the call makes one poll
  and returns that error.
\<close>

lemma failed_status_query_ends_without_timeout:
  "\<not> SkipConfirmationCheck (example_options\<lparr>ConfirmationRetries := 3\<rparr>)
   \<and> reported_status (GetSignatureStatuses (mock_client (Inr ''sig'') [Inl ''connection reset'']) 0 ''sig'') = None
   \<and> reported_status (GetSignatureStatuses (mock_client (Inr ''sig'') [Inl ''connection reset'']) 1 ''sig'') = None
   \<and> reported_status (GetSignatureStatuses (mock_client (Inr ''sig'') [Inl ''connection reset'']) 2 ''sig'') = None
   \<and> sendAndConfirmTransaction geq_level (mock_client (Inr ''sig'') [Inl ''connection reset''])
        ''tx'' (example_options\<lparr>ConfirmationRetries := 3\<rparr>)
      = (Inl (StatusQueryError ''connection reset''),
         [CallSend ''tx'' \<lparr>SkipPreflight = True, MaxRetries = Some 5\<rparr>, CallStatus ''sig''])
   \<and> polls (snd (sendAndConfirmTransaction geq_level (mock_client (Inr ''sig'') [Inl ''connection reset''])
        ''tx'' (example_options\<lparr>ConfirmationRetries := 3\<rparr>))) = 1"
  by (simp add: run_defs)

text \<open>
  The time-out of the loop as the code has it. After a successful send, without
  \<open>SkipConfirmationCheck\<close>, if every status query of the \<open>ConfirmationRetries\<close> attempts
  succeeds and its first entry is nil or has no error and a status that fails the test of
  the loop, the call ends with the time-out error; its events are the send and then,
  \<open>ConfirmationRetries\<close> times (no time when that number is negative), a status query
  followed by a sleep of \<open>ConfirmationCheckInterval\<close>.
\<close>

lemma timeout_after_all_polls:
  assumes "\<not> SkipConfirmationCheck options"
    and "SendTransactionWithOpts client tx (SendOptions options) = Inr sig"
    and "\<forall>j. int j < ConfirmationRetries options \<longrightarrow>
           keeps_polling geq (GetSignatureStatuses client j sig)"
  shows "sendAndConfirmTransaction geq client tx options =
           (Inl ConfirmationTimedOut,
            CallSend tx (SendOptions options) #
            concat (replicate (nat (ConfirmationRetries options))
              [CallStatus sig, CallSleep (ConfirmationCheckInterval options)]))
       \<and> polls (snd (sendAndConfirmTransaction geq client tx options)) =
           nat (ConfirmationRetries options)"
proof -
  from assms(3) have "\<forall>j. 0 \<le> j \<and> int j < ConfirmationRetries options \<longrightarrow>
           keeps_polling geq (GetSignatureStatuses client j sig)"
    by simp
  from loop_all_polling [OF this] assms(1,2) show ?thesis
    by (simp add: sendAndConfirmTransaction_def polls_all_polling)
qed

text \<open>
  An instance: finalized required, three retries; the node reports no status, then
  confirmed, then no status.
\<close>

lemma timeout_after_all_polls_witness:
  "\<not> SkipConfirmationCheck (example_options\<lparr>ConfirmationRetries := 3, Commitment := CommitmentFinalized\<rparr>)
   \<and> SendTransactionWithOpts
        (mock_client (Inr ''sig'') [Inr [None], status_of ConfirmationStatusConfirmed, Inr [None]])
        ''tx'' (SendOptions (example_options\<lparr>ConfirmationRetries := 3, Commitment := CommitmentFinalized\<rparr>)) = Inr ''sig''
   \<and> keeps_polling geq_level
         (GetSignatureStatuses
            (mock_client (Inr ''sig'') [Inr [None], status_of ConfirmationStatusConfirmed, Inr [None]])
            0 ''sig'')
   \<and> keeps_polling geq_level
         (GetSignatureStatuses
            (mock_client (Inr ''sig'') [Inr [None], status_of ConfirmationStatusConfirmed, Inr [None]])
            1 ''sig'')
   \<and> keeps_polling geq_level
         (GetSignatureStatuses
            (mock_client (Inr ''sig'') [Inr [None], status_of ConfirmationStatusConfirmed, Inr [None]])
            2 ''sig'')
   \<and> sendAndConfirmTransaction geq_level
        (mock_client (Inr ''sig'') [Inr [None], status_of ConfirmationStatusConfirmed, Inr [None]])
        ''tx'' (example_options\<lparr>ConfirmationRetries := 3, Commitment := CommitmentFinalized\<rparr>)
      = (Inl ConfirmationTimedOut,
         [CallSend ''tx'' \<lparr>SkipPreflight = True, MaxRetries = Some 5\<rparr>,
          CallStatus ''sig'', CallSleep 100000000, CallStatus ''sig'', CallSleep 100000000,
          CallStatus ''sig'', CallSleep 100000000])
   \<and> polls (snd (sendAndConfirmTransaction geq_level
        (mock_client (Inr ''sig'') [Inr [None], status_of ConfirmationStatusConfirmed, Inr [None]])
        ''tx'' (example_options\<lparr>ConfirmationRetries := 3, Commitment := CommitmentFinalized\<rparr>))) = 3"
proof -
  have a: "\<not> SkipConfirmationCheck (example_options\<lparr>ConfirmationRetries := 3, Commitment := CommitmentFinalized\<rparr>)"
    by (simp add: example_options_def)
  have b: "SendTransactionWithOpts
        (mock_client (Inr ''sig'') [Inr [None], status_of ConfirmationStatusConfirmed, Inr [None]])
        ''tx'' (SendOptions (example_options\<lparr>ConfirmationRetries := 3, Commitment := CommitmentFinalized\<rparr>)) = Inr ''sig''"
    by (simp add: mock_client_def)
  have h: "\<forall>j. int j < ConfirmationRetries (example_options\<lparr>ConfirmationRetries := 3, Commitment := CommitmentFinalized\<rparr>) \<longrightarrow>
         keeps_polling geq_level
           (GetSignatureStatuses
              (mock_client (Inr ''sig'') [Inr [None], status_of ConfirmationStatusConfirmed, Inr [None]])
              j ''sig'')"
    by (simp add: mock_client_def status_of_def geq_level_def nth_Cons split: nat.splits)
  have c: "ConfirmationRetries (example_options\<lparr>ConfirmationRetries := 3, Commitment := CommitmentFinalized\<rparr>) = 3"
    "ConfirmationCheckInterval (example_options\<lparr>ConfirmationRetries := 3, Commitment := CommitmentFinalized\<rparr>) = 100000000"
    "SendOptions (example_options\<lparr>ConfirmationRetries := 3, Commitment := CommitmentFinalized\<rparr>) =
       \<lparr>SkipPreflight = True, MaxRetries = Some 5\<rparr>"
    by (simp_all add: example_options_def)
  have n: "nat 3 = Suc (Suc (Suc 0))" by simp
  from timeout_after_all_polls [OF a b h, unfolded c n] a b h [rule_format, of 0]
    h [rule_format, of 1] h [rule_format, of 2]
  show ?thesis by (simp add: c)
qed

text \<open>
  Claim C5. If the call makes a \<open>k\<close>-th status query (\<open>k\<close> counted from 1) and the status
  this query reports has an error, the call ends with \<open>TransactionFailed\<close> carrying that
  error, and it has made exactly \<open>k\<close> status queries; \<open>k\<close> is at most
  \<open>ConfirmationRetries\<close>.
\<close>

theorem transaction_error_ends_polling:
  assumes "SendTransactionWithOpts client tx (SendOptions options) = Inr sig"
    and "1 \<le> k"
    and "k \<le> polls (snd (sendAndConfirmTransaction geq client tx options))"
    and "reported_status (GetSignatureStatuses client (k - 1) sig) = Some st"
    and "Err st = Some e"
  shows "fst (sendAndConfirmTransaction geq client tx options) = Inl (TransactionFailed e)
       \<and> polls (snd (sendAndConfirmTransaction geq client tx options)) = k
       \<and> int k \<le> ConfirmationRetries options"
proof -
  have ns: "\<not> SkipConfirmationCheck options"
    using assms(1,2,3) by (auto simp: sendAndConfirmTransaction_def)
  then have run: "sendAndConfirmTransaction geq client tx options =
      (fst (sendAndConfirmTransaction_loop geq client options sig 0),
       CallSend tx (SendOptions options) # snd (sendAndConfirmTransaction_loop geq client options sig 0))"
    using assms(1) by (simp add: sendAndConfirmTransaction_def case_prod_beta)
  with assms(2,3) have lt: "k - 1 < polls (snd (sendAndConfirmTransaction_loop geq client options sig 0))"
    by simp
  from assms(4) have r: "reported_status (GetSignatureStatuses client (0 + (k - 1)) sig) = Some st"
    by simp
  from loop_failed_at [OF r assms(5) lt] run assms(2)
  have res: "fst (sendAndConfirmTransaction geq client tx options) = Inl (TransactionFailed e)
       \<and> polls (snd (sendAndConfirmTransaction geq client tx options)) = k"
    by simp
  have "int (polls (snd (sendAndConfirmTransaction_loop geq client options sig 0)))
        \<le> max 0 (ConfirmationRetries options)"
    using loop_polls_bound [of 0 geq client options sig] by simp
  with lt have "int (polls (snd (sendAndConfirmTransaction_loop geq client options sig 0)))
        \<le> ConfirmationRetries options"
    by linarith
  with run res show ?thesis by simp
qed


text \<open>
  An instance of C5: the second poll reports a transaction error.
\<close>

theorem transaction_error_ends_polling_witness:
  "SendTransactionWithOpts
     (mock_client (Inr ''sig'') [Inr [None], Inr [Some \<lparr>Err = Some ''InstructionError'', ConfirmationStatus = ConfirmationStatusProcessed\<rparr>]])
     ''tx'' (SendOptions (example_options\<lparr>ConfirmationRetries := 3\<rparr>)) = Inr ''sig''
   \<and> (1::nat) \<le> 2
   \<and> reported_status (GetSignatureStatuses
        (mock_client (Inr ''sig'') [Inr [None], Inr [Some \<lparr>Err = Some ''InstructionError'', ConfirmationStatus = ConfirmationStatusProcessed\<rparr>]])
        (2 - 1) ''sig'')
      = Some \<lparr>Err = Some ''InstructionError'', ConfirmationStatus = ConfirmationStatusProcessed\<rparr>
   \<and> fst (sendAndConfirmTransaction geq_level
        (mock_client (Inr ''sig'') [Inr [None], Inr [Some \<lparr>Err = Some ''InstructionError'', ConfirmationStatus = ConfirmationStatusProcessed\<rparr>]])
        ''tx'' (example_options\<lparr>ConfirmationRetries := 3\<rparr>))
      = Inl (TransactionFailed ''InstructionError'')
   \<and> polls (snd (sendAndConfirmTransaction geq_level
        (mock_client (Inr ''sig'') [Inr [None], Inr [Some \<lparr>Err = Some ''InstructionError'', ConfirmationStatus = ConfirmationStatusProcessed\<rparr>]])
        ''tx'' (example_options\<lparr>ConfirmationRetries := 3\<rparr>))) = 2"
proof -
  have a: "SendTransactionWithOpts
     (mock_client (Inr ''sig'') [Inr [None], Inr [Some \<lparr>Err = Some ''InstructionError'', ConfirmationStatus = ConfirmationStatusProcessed\<rparr>]])
     ''tx'' (SendOptions (example_options\<lparr>ConfirmationRetries := 3\<rparr>)) = Inr ''sig''"
    by (simp add: mock_client_def)
  have b: "(1::nat) \<le> 2" by simp
  have c: "2 \<le> polls (snd (sendAndConfirmTransaction geq_level
        (mock_client (Inr ''sig'') [Inr [None], Inr [Some \<lparr>Err = Some ''InstructionError'', ConfirmationStatus = ConfirmationStatusProcessed\<rparr>]])
        ''tx'' (example_options\<lparr>ConfirmationRetries := 3\<rparr>)))"
    by (simp add: run_defs)
  have d: "reported_status (GetSignatureStatuses
        (mock_client (Inr ''sig'') [Inr [None], Inr [Some \<lparr>Err = Some ''InstructionError'', ConfirmationStatus = ConfirmationStatusProcessed\<rparr>]])
        (2 - 1) ''sig'')
      = Some \<lparr>Err = Some ''InstructionError'', ConfirmationStatus = ConfirmationStatusProcessed\<rparr>"
    by (simp add: mock_client_def)
  have e: "Err \<lparr>Err = Some ''InstructionError'', ConfirmationStatus = ConfirmationStatusProcessed\<rparr>
      = Some ''InstructionError''" by simp
  from transaction_error_ends_polling [OF a b c d e] a b d show ?thesis by simp
qed

text \<open>
  Claim C6, at a concrete input. The options require the commitment level confirmed and
  allow three polls; the first poll has no status yet and the second reports confirmed,
  without error. The configured commitment is reached at attempt 2 < 3, yet the call does
  not return the signature after two polls: it polls a third time and ends with the
  time-out error, under both readings of \<open>>=\<close>.
\<close>

theorem reaching_configured_commitment_keeps_polling:
  "sendAndConfirmTransaction geq_level
     (mock_client (Inr ''sig'') [Inr [None], status_of ConfirmationStatusConfirmed])
     ''tx'' (example_options\<lparr>ConfirmationRetries := 3, Commitment := CommitmentConfirmed\<rparr>)
   = (Inl ConfirmationTimedOut,
      [CallSend ''tx'' \<lparr>SkipPreflight = True, MaxRetries = Some 5\<rparr>,
       CallStatus ''sig'', CallSleep 100000000, CallStatus ''sig'', CallSleep 100000000,
       CallStatus ''sig'', CallSleep 100000000])
   \<and>
   sendAndConfirmTransaction geq_name
     (mock_client (Inr ''sig'') [Inr [None], status_of ConfirmationStatusConfirmed])
     ''tx'' (example_options\<lparr>ConfirmationRetries := 3, Commitment := CommitmentConfirmed\<rparr>)
   = (Inl ConfirmationTimedOut,
      [CallSend ''tx'' \<lparr>SkipPreflight = True, MaxRetries = Some 5\<rparr>,
       CallStatus ''sig'', CallSleep 100000000, CallStatus ''sig'', CallSleep 100000000,
       CallStatus ''sig'', CallSleep 100000000])"
  by (simp add: run_defs geq_level_def geq_name_def)

text \<open>
  Claim C7. Every call submits the transaction exactly once, as its first event, with the
  send options of the bundle; when the send fails, the call ends at once with the send
  error, the send being its only event: no poll and no second send.
\<close>

theorem transaction_sent_exactly_once:
  "sends (snd (sendAndConfirmTransaction geq client tx options)) = 1
   \<and> hd (snd (sendAndConfirmTransaction geq client tx options)) = CallSend tx (SendOptions options)
   \<and> (\<forall>err. SendTransactionWithOpts client tx (SendOptions options) = Inl err \<longrightarrow>
         sendAndConfirmTransaction geq client tx options =
           (Inl (SendError err), [CallSend tx (SendOptions options)]))"
  by (simp add: sendAndConfirmTransaction_def case_prod_beta loop_no_send split: sum.splits)

text \<open>
  An instance of C7: a node that refuses the transaction.
\<close>

theorem transaction_sent_exactly_once_witness:
  "SendTransactionWithOpts (mock_client (Inl ''node unreachable'') [status_of ConfirmationStatusFinalized])
      ''tx'' (SendOptions example_options) = Inl ''node unreachable''
   \<and> sendAndConfirmTransaction geq_level
        (mock_client (Inl ''node unreachable'') [status_of ConfirmationStatusFinalized])
        ''tx'' example_options
      = (Inl (SendError ''node unreachable''),
         [CallSend ''tx'' \<lparr>SkipPreflight = True, MaxRetries = Some 5\<rparr>])
   \<and> sends (snd (sendAndConfirmTransaction geq_level
        (mock_client (Inl ''node unreachable'') [status_of ConfirmationStatusFinalized])
        ''tx'' example_options)) = 1"
  using transaction_sent_exactly_once
    [of geq_level "mock_client (Inl ''node unreachable'') [status_of ConfirmationStatusFinalized]"
        "''tx''" example_options]
  by (simp add: mock_client_def example_options_def)

text \<open>
  Claim C10. Without \<open>SkipConfirmationCheck\<close> and with \<open>ConfirmationRetries\<close> at most 0,
  a call whose send succeeds ends with the time-out error and makes no status query,
  whatever the node would answer.
\<close>

theorem no_retries_times_out_unpolled:
  assumes "\<not> SkipConfirmationCheck options"
    and "ConfirmationRetries options \<le> 0"
    and "SendTransactionWithOpts client tx (SendOptions options) = Inr sig"
  shows "sendAndConfirmTransaction geq client tx options =
           (Inl ConfirmationTimedOut, [CallSend tx (SendOptions options)])
       \<and> polls (snd (sendAndConfirmTransaction geq client tx options)) = 0"
  using assms by (simp add: sendAndConfirmTransaction_def loop_exhausted)

text \<open>
  An instance of C10: zero retries, against a node that would report finalized.
\<close>

theorem no_retries_times_out_unpolled_witness:
  "\<not> SkipConfirmationCheck (example_options\<lparr>ConfirmationRetries := 0\<rparr>)
   \<and> ConfirmationRetries (example_options\<lparr>ConfirmationRetries := 0\<rparr>) \<le> 0
   \<and> GetSignatureStatuses (mock_client (Inr ''sig'') [status_of ConfirmationStatusFinalized])
        0 ''sig'' = status_of ConfirmationStatusFinalized
   \<and> sendAndConfirmTransaction geq_level
        (mock_client (Inr ''sig'') [status_of ConfirmationStatusFinalized])
        ''tx'' (example_options\<lparr>ConfirmationRetries := 0\<rparr>)
      = (Inl ConfirmationTimedOut, [CallSend ''tx'' \<lparr>SkipPreflight = True, MaxRetries = Some 5\<rparr>])"
  using no_retries_times_out_unpolled
    [of "example_options\<lparr>ConfirmationRetries := 0\<rparr>"
        "mock_client (Inr ''sig'') [status_of ConfirmationStatusFinalized]" "''tx''" "''sig''" geq_level]
  by (simp add: mock_client_def example_options_def)

section \<open>The query string of the quote fetch\<close>

lemma hex_digits:
  "list_all (\<lambda>d. unhex (upperhex ! d) = d \<and> upperhex ! d \<noteq> CHR ''&'' \<and> upperhex ! d \<noteq> CHR ''='')
     [0..<16]"
  by code_simp

lemma unhex_upperhex: "d < 16 \<Longrightarrow> unhex (upperhex ! d) = d"
  using hex_digits by (simp add: list_all_iff)

lemma upperhex_not_separator:
  "d < 16 \<Longrightarrow> upperhex ! d \<noteq> CHR ''&'' \<and> upperhex ! d \<noteq> CHR ''=''"
  using hex_digits by (simp add: list_all_iff)

lemma of_char_div_16: "(of_char c :: nat) div 16 < 16"
proof -
  have "(of_char c :: nat) < 256" by simp
  then show ?thesis by arith
qed

lemma QueryUnescape_plain:
  "c \<noteq> CHR ''%'' \<Longrightarrow>
   QueryUnescape (c # t) = (if c = CHR ''+'' then CHR '' '' else c) # QueryUnescape t"
  by (cases "(c # t)" rule: QueryUnescape.cases) simp_all

lemma QueryUnescape_percent:
  "QueryUnescape (CHR ''%'' # h # l # t) = char_of (16 * unhex h + unhex l) # QueryUnescape t"
  by simp

lemma unescaped_plain:
  "\<not> shouldEscape c \<Longrightarrow> c \<noteq> CHR ''%'' \<and> c \<noteq> CHR ''+'' \<and> c \<noteq> CHR ''&'' \<and> c \<noteq> CHR ''=''"
  by (auto simp: shouldEscape_def)

lemma QueryUnescape_escape_byte:
  "QueryUnescape (escape_byte c @ t) = c # QueryUnescape t"
proof (cases "c = CHR '' ''")
  case True
  then show ?thesis by (simp add: escape_byte_def QueryUnescape_plain)
next
  case False
  show ?thesis
  proof (cases "shouldEscape c")
    case True
    have "16 * unhex (upperhex ! (of_char c div 16)) + unhex (upperhex ! (of_char c mod 16))
          = (of_char c :: nat)"
      by (simp add: unhex_upperhex of_char_div_16)
    with True False show ?thesis
      by (simp add: escape_byte_def del: QueryUnescape.simps add: QueryUnescape_percent)
  next
    case unres: False
    with False unescaped_plain [OF unres] show ?thesis
      by (simp add: escape_byte_def QueryUnescape_plain del: QueryUnescape.simps)
  qed
qed

lemma QueryUnescape_QueryEscape_append:
  "QueryUnescape (QueryEscape s @ t) = s @ QueryUnescape t"
  by (induction s) (simp_all add: QueryEscape_def QueryUnescape_escape_byte)

lemma QueryUnescape_QueryEscape: "QueryUnescape (QueryEscape s) = s"
  using QueryUnescape_QueryEscape_append [of s "[]"] by simp

lemma escape_byte_no_separator:
  "CHR ''&'' \<notin> set (escape_byte c) \<and> CHR ''='' \<notin> set (escape_byte c)"
  using upperhex_not_separator [of "of_char c div 16"] upperhex_not_separator [of "of_char c mod 16"]
    unescaped_plain [of c] of_char_div_16 [of c]
  by (auto simp: escape_byte_def)

lemma QueryEscape_no_separator:
  "CHR ''&'' \<notin> set (QueryEscape s) \<and> CHR ''='' \<notin> set (QueryEscape s)"
  using escape_byte_no_separator by (induction s) (auto simp: QueryEscape_def)

lemma split_on_nonempty: "split_on d s \<noteq> []"
  by (induction s) (auto split: list.splits)

lemma split_on_last: "d \<notin> set a \<Longrightarrow> split_on d a = [a]"
  by (induction a) auto

lemma split_on_segment: "d \<notin> set a \<Longrightarrow> split_on d (a @ d # b) = a # split_on d b"
  by (induction a) auto

lemma query_field_pair:
  assumes "CHR ''='' \<notin> set k"
  shows "query_field (k @ CHR ''='' # QueryEscape v) = (QueryUnescape k, v)"
proof -
  have key: "takeWhile (\<lambda>c. c \<noteq> CHR ''='') (k @ CHR ''='' # w) = k" for w
    using assms by (induction k) auto
  have rest: "dropWhile (\<lambda>c. c \<noteq> CHR ''='') (k @ CHR ''='' # w) = CHR ''='' # w" for w
    using assms by (induction k) auto
  show ?thesis
    by (simp add: query_field_def key rest QueryUnescape_QueryEscape)
qed

lemma params_without_fee:
  "GetSwapInstructions_params fromToken toToken fromAmount slippage payer None forceLegacy =
     [(''from'', [fromToken]), (''to'', [toToken]), (''fromAmount'', [Sprintf_f fromAmount]),
      (''slippage'', [Sprintf_f slippage]), (''payer'', [payer]),
      (''forceLegacy'', [FormatBool forceLegacy])]"
  by (simp add: GetSwapInstructions_params_def)

lemma params_with_fee:
  "GetSwapInstructions_params fromToken toToken fromAmount slippage payer (Some fee) forceLegacy =
     [(''from'', [fromToken]), (''to'', [toToken]), (''fromAmount'', [Sprintf_f fromAmount]),
      (''slippage'', [Sprintf_f slippage]), (''payer'', [payer]),
      (''forceLegacy'', [FormatBool forceLegacy]), (''priorityFee'', [Sprintf_f fee])]"
  by (simp add: GetSwapInstructions_params_def)

lemma QueryEscape_keys:
  "QueryEscape ''from'' = ''from''" "QueryEscape ''to'' = ''to''"
  "QueryEscape ''fromAmount'' = ''fromAmount''" "QueryEscape ''slippage'' = ''slippage''"
  "QueryEscape ''payer'' = ''payer''" "QueryEscape ''forceLegacy'' = ''forceLegacy''"
  "QueryEscape ''priorityFee'' = ''priorityFee''"
  by (simp_all add: QueryEscape_def escape_byte_def shouldEscape_def)

lemma Encode_without_fee:
  "Encode [(''from'', [f]), (''to'', [t]), (''fromAmount'', [a]),
      (''slippage'', [s]), (''payer'', [p]), (''forceLegacy'', [b])] =
   (''forceLegacy'' @ CHR ''='' # QueryEscape b) @ CHR ''&'' #
   (''from'' @ CHR ''='' # QueryEscape f) @ CHR ''&'' #
   (''fromAmount'' @ CHR ''='' # QueryEscape a) @ CHR ''&'' #
   (''payer'' @ CHR ''='' # QueryEscape p) @ CHR ''&'' #
   (''slippage'' @ CHR ''='' # QueryEscape s) @ CHR ''&'' #
   (''to'' @ CHR ''='' # QueryEscape t)"
  by (simp add: Encode_def QueryEscape_keys)

lemma Encode_with_fee:
  "Encode [(''from'', [f]), (''to'', [t]), (''fromAmount'', [a]),
      (''slippage'', [s]), (''payer'', [p]), (''forceLegacy'', [b]), (''priorityFee'', [fee])] =
   (''forceLegacy'' @ CHR ''='' # QueryEscape b) @ CHR ''&'' #
   (''from'' @ CHR ''='' # QueryEscape f) @ CHR ''&'' #
   (''fromAmount'' @ CHR ''='' # QueryEscape a) @ CHR ''&'' #
   (''payer'' @ CHR ''='' # QueryEscape p) @ CHR ''&'' #
   (''priorityFee'' @ CHR ''='' # QueryEscape fee) @ CHR ''&'' #
   (''slippage'' @ CHR ''='' # QueryEscape s) @ CHR ''&'' #
   (''to'' @ CHR ''='' # QueryEscape t)"
  by (simp add: Encode_def QueryEscape_keys)

lemma field_no_ampersand:
  "CHR ''&'' \<notin> set k \<Longrightarrow> CHR ''&'' \<notin> set (k @ CHR ''='' # QueryEscape v)"
  using QueryEscape_no_separator [of v] by simp

lemma split_on_field:
  assumes "CHR ''&'' \<notin> set k"
  shows "split_on (CHR ''&'') ((k @ CHR ''='' # QueryEscape v) @ CHR ''&'' # rest) =
         (k @ CHR ''='' # QueryEscape v) # split_on (CHR ''&'') rest"
  by (rule split_on_segment) (rule field_no_ampersand [OF assms])

lemma split_on_last_field:
  assumes "CHR ''&'' \<notin> set k"
  shows "split_on (CHR ''&'') (k @ CHR ''='' # QueryEscape v) = [k @ CHR ''='' # QueryEscape v]"
  by (rule split_on_last) (rule field_no_ampersand [OF assms])

lemma QueryUnescape_keys:
  "QueryUnescape ''from'' = ''from''" "QueryUnescape ''to'' = ''to''"
  "QueryUnescape ''fromAmount'' = ''fromAmount''" "QueryUnescape ''slippage'' = ''slippage''"
  "QueryUnescape ''payer'' = ''payer''" "QueryUnescape ''forceLegacy'' = ''forceLegacy''"
  "QueryUnescape ''priorityFee'' = ''priorityFee''"
  by simp_all

lemma key_no_ampersand:
  "CHR ''&'' \<notin> set ''from''" "CHR ''&'' \<notin> set ''to''" "CHR ''&'' \<notin> set ''fromAmount''"
  "CHR ''&'' \<notin> set ''slippage''" "CHR ''&'' \<notin> set ''payer''"
  "CHR ''&'' \<notin> set ''forceLegacy''" "CHR ''&'' \<notin> set ''priorityFee''"
  by simp_all

lemma key_no_equals:
  "CHR ''='' \<notin> set ''from''" "CHR ''='' \<notin> set ''to''" "CHR ''='' \<notin> set ''fromAmount''"
  "CHR ''='' \<notin> set ''slippage''" "CHR ''='' \<notin> set ''payer''"
  "CHR ''='' \<notin> set ''forceLegacy''" "CHR ''='' \<notin> set ''priorityFee''"
  by simp_all

lemmas split_on_keys =
  key_no_ampersand [THEN split_on_field] key_no_ampersand [THEN split_on_last_field]

lemmas query_field_keys = key_no_equals [THEN query_field_pair]

lemma filter_field:
  "filter (\<lambda>p. p \<noteq> []) ((k @ CHR ''='' # w) # ps) =
   (k @ CHR ''='' # w) # filter (\<lambda>p. p \<noteq> []) ps"
  by simp

lemma fields_without_fee:
  "query_fields
     ((''forceLegacy'' @ CHR ''='' # QueryEscape b) @ CHR ''&'' #
      (''from'' @ CHR ''='' # QueryEscape f) @ CHR ''&'' #
      (''fromAmount'' @ CHR ''='' # QueryEscape a) @ CHR ''&'' #
      (''payer'' @ CHR ''='' # QueryEscape p) @ CHR ''&'' #
      (''slippage'' @ CHR ''='' # QueryEscape s) @ CHR ''&'' #
      (''to'' @ CHR ''='' # QueryEscape t)) =
   [(''forceLegacy'', b), (''from'', f), (''fromAmount'', a), (''payer'', p),
    (''slippage'', s), (''to'', t)]"
proof -
  have sp: "split_on (CHR ''&'')
     ((''forceLegacy'' @ CHR ''='' # QueryEscape b) @ CHR ''&'' #
      (''from'' @ CHR ''='' # QueryEscape f) @ CHR ''&'' #
      (''fromAmount'' @ CHR ''='' # QueryEscape a) @ CHR ''&'' #
      (''payer'' @ CHR ''='' # QueryEscape p) @ CHR ''&'' #
      (''slippage'' @ CHR ''='' # QueryEscape s) @ CHR ''&'' #
      (''to'' @ CHR ''='' # QueryEscape t)) =
    [''forceLegacy'' @ CHR ''='' # QueryEscape b, ''from'' @ CHR ''='' # QueryEscape f,
     ''fromAmount'' @ CHR ''='' # QueryEscape a, ''payer'' @ CHR ''='' # QueryEscape p,
     ''slippage'' @ CHR ''='' # QueryEscape s, ''to'' @ CHR ''='' # QueryEscape t]"
    by (simp only: split_on_keys)
  show ?thesis
    unfolding query_fields_def sp
    by (simp only: filter_field filter.simps(1) list.map query_field_keys QueryUnescape_keys)
qed

lemma fields_with_fee:
  "query_fields
     ((''forceLegacy'' @ CHR ''='' # QueryEscape b) @ CHR ''&'' #
      (''from'' @ CHR ''='' # QueryEscape f) @ CHR ''&'' #
      (''fromAmount'' @ CHR ''='' # QueryEscape a) @ CHR ''&'' #
      (''payer'' @ CHR ''='' # QueryEscape p) @ CHR ''&'' #
      (''priorityFee'' @ CHR ''='' # QueryEscape fee) @ CHR ''&'' #
      (''slippage'' @ CHR ''='' # QueryEscape s) @ CHR ''&'' #
      (''to'' @ CHR ''='' # QueryEscape t)) =
   [(''forceLegacy'', b), (''from'', f), (''fromAmount'', a), (''payer'', p),
    (''priorityFee'', fee), (''slippage'', s), (''to'', t)]"
proof -
  have sp: "split_on (CHR ''&'')
     ((''forceLegacy'' @ CHR ''='' # QueryEscape b) @ CHR ''&'' #
      (''from'' @ CHR ''='' # QueryEscape f) @ CHR ''&'' #
      (''fromAmount'' @ CHR ''='' # QueryEscape a) @ CHR ''&'' #
      (''payer'' @ CHR ''='' # QueryEscape p) @ CHR ''&'' #
      (''priorityFee'' @ CHR ''='' # QueryEscape fee) @ CHR ''&'' #
      (''slippage'' @ CHR ''='' # QueryEscape s) @ CHR ''&'' #
      (''to'' @ CHR ''='' # QueryEscape t)) =
    [''forceLegacy'' @ CHR ''='' # QueryEscape b, ''from'' @ CHR ''='' # QueryEscape f,
     ''fromAmount'' @ CHR ''='' # QueryEscape a, ''payer'' @ CHR ''='' # QueryEscape p,
     ''priorityFee'' @ CHR ''='' # QueryEscape fee,
     ''slippage'' @ CHR ''='' # QueryEscape s, ''to'' @ CHR ''='' # QueryEscape t]"
    by (simp only: split_on_keys)
  show ?thesis
    unfolding query_fields_def sp
    by (simp only: filter_field filter.simps(1) list.map query_field_keys QueryUnescape_keys)
qed

declare decimal.simps [simp del]

lemmas Sprintf_eval =
  millionths_def round_half_even_def decimal.simps decimal_digit_def Let_def
  float_0_0001_def float_0_00005_def float_30_def float_0_0000001_def

text \<open>
  Read back, the query string of the quote fetch has exactly these fields, in this
  order: \<open>forceLegacy\<close> with the text \<open>true\<close> or \<open>false\<close> of the flag, \<open>from\<close>, \<open>fromAmount\<close>,
  \<open>payer\<close>, then \<open>priorityFee\<close> when the fee is not nil and nothing when it is, then
  \<open>slippage\<close> and \<open>to\<close>. Each field is there once; a string has the value that was
  passed, whatever its bytes, and a number has the text that \<open>%f\<close> gives.
\<close>

lemma query_fields_of_request:
  "query_fields (Encode (GetSwapInstructions_params fromToken toToken fromAmount slippage
       payer priorityFee forceLegacy)) =
     [(''forceLegacy'', if forceLegacy then ''true'' else ''false''), (''from'', fromToken),
      (''fromAmount'', Sprintf_f fromAmount), (''payer'', payer)]
     @ (case priorityFee of None \<Rightarrow> [] | Some fee \<Rightarrow> [(''priorityFee'', Sprintf_f fee)])
     @ [(''slippage'', Sprintf_f slippage), (''to'', toToken)]"
proof (cases priorityFee)
  case None
  then show ?thesis
    by (simp only: params_without_fee Encode_without_fee fields_without_fee)
       (simp add: FormatBool_def)
next
  case (Some fee)
  then show ?thesis
    by (simp only: params_with_fee Encode_with_fee fields_with_fee)
       (simp add: FormatBool_def)
qed

text \<open>
  The numbers of \<open>example.go\<close> as \<open>%f\<close> prints them, and a positive amount below half a
  millionth, which is printed as zero.
\<close>

lemma Sprintf_f_examples:
  "Sprintf_f float_0_0001 = ''0.000100''"
  "Sprintf_f float_0_00005 = ''0.000050''"
  "Sprintf_f float_30 = ''30.000000''"
  "Sprintf_f float_0_0000001 = ''0.000000''"
  "Sprintf_f (Finite False 0 0) = ''0.000000''"
  by (simp_all add: Sprintf_eval)

text \<open>
  Every positive value below half a millionth is printed as zero.
\<close>

lemma below_half_millionth_printed_as_zero:
  assumes "2 * (m * 1000000) < (2::nat) ^ k"
  shows "Sprintf_f (Finite False m (- int k)) = ''0.000000''"
proof -
  have "millionths m (- int k) = 0"
  proof (cases "k = 0")
    case True
    with assms have "m = 0" by simp
    with True show ?thesis by (simp add: millionths_def)
  next
    case False
    from assms have small: "m * 1000000 < 2 ^ k" by linarith
    have "round_half_even (m * 1000000) (2 ^ k) = 0"
      using assms small by (simp add: round_half_even_def Let_def)
    with False show ?thesis by (simp add: millionths_def)
  qed
  then show ?thesis
    by (simp add: decimal.simps decimal_digit_def)
qed

text \<open>
  Claim C8, at a concrete input. The request has the tokens and the slippage of
  \<open>example.go\<close>, the flag \<open>forceLegacy\<close> set, the priority fee \<open>0.00005\<close> and the amount
  \<open>0.0000001\<close>. The fields are there once each and the strings, the flag, the fee and the
  slippage are sent as passed, but the amount is sent as \<open>0.000000\<close>: the query string is
  the one of the same request with the amount zero.
\<close>

theorem small_amount_sent_as_zero:
  "query_fields (Encode (GetSwapInstructions_params
       ''So11111111111111111111111111111111111111112''
       ''4k3Dyjzvzp8eMZWUXbBCjEvwSkkk59S5iCNLY3QrkX6R''
       float_0_0000001 float_30 ''payer key/1'' (Some float_0_00005) True)) =
     [(''forceLegacy'', ''true''),
      (''from'', ''So11111111111111111111111111111111111111112''),
      (''fromAmount'', ''0.000000''), (''payer'', ''payer key/1''),
      (''priorityFee'', ''0.000050''), (''slippage'', ''30.000000''),
      (''to'', ''4k3Dyjzvzp8eMZWUXbBCjEvwSkkk59S5iCNLY3QrkX6R'')]
   \<and> Encode (GetSwapInstructions_params
       ''So11111111111111111111111111111111111111112''
       ''4k3Dyjzvzp8eMZWUXbBCjEvwSkkk59S5iCNLY3QrkX6R''
       float_0_0000001 float_30 ''payer key/1'' (Some float_0_00005) True)
     = Encode (GetSwapInstructions_params
       ''So11111111111111111111111111111111111111112''
       ''4k3Dyjzvzp8eMZWUXbBCjEvwSkkk59S5iCNLY3QrkX6R''
       (Finite False 0 0) float_30 ''payer key/1'' (Some float_0_00005) True)"
proof (rule conjI)
  show "query_fields (Encode (GetSwapInstructions_params
       ''So11111111111111111111111111111111111111112''
       ''4k3Dyjzvzp8eMZWUXbBCjEvwSkkk59S5iCNLY3QrkX6R''
       float_0_0000001 float_30 ''payer key/1'' (Some float_0_00005) True)) =
     [(''forceLegacy'', ''true''),
      (''from'', ''So11111111111111111111111111111111111111112''),
      (''fromAmount'', ''0.000000''), (''payer'', ''payer key/1''),
      (''priorityFee'', ''0.000050''), (''slippage'', ''30.000000''),
      (''to'', ''4k3Dyjzvzp8eMZWUXbBCjEvwSkkk59S5iCNLY3QrkX6R'')]"
    by (simp add: query_fields_of_request Sprintf_f_examples)
next
  have "Sprintf_f float_0_0000001 = Sprintf_f (Finite False 0 0)"
    by (simp only: Sprintf_f_examples)
  then show "Encode (GetSwapInstructions_params
       ''So11111111111111111111111111111111111111112''
       ''4k3Dyjzvzp8eMZWUXbBCjEvwSkkk59S5iCNLY3QrkX6R''
       float_0_0000001 float_30 ''payer key/1'' (Some float_0_00005) True)
     = Encode (GetSwapInstructions_params
       ''So11111111111111111111111111111111111111112''
       ''4k3Dyjzvzp8eMZWUXbBCjEvwSkkk59S5iCNLY3QrkX6R''
       (Finite False 0 0) float_30 ''payer key/1'' (Some float_0_00005) True)"
    by (simp only: params_with_fee)
qed

text \<open>
  The query string of the request of \<open>example.go\<close>, as text, with a payer that needs
  escaping.
\<close>

lemma example_query_string:
  "Encode (GetSwapInstructions_params ''So1'' ''4k3'' float_0_0001 float_30 ''payer key/1''
       (Some float_0_00005) False) =
   ''forceLegacy=false&from=So1&fromAmount=0.000100&payer=payer+key%2F1&priorityFee=0.000050&slippage=30.000000&to=4k3''"
  by (simp add: params_with_fee Encode_with_fee Sprintf_f_examples FormatBool_def QueryEscape_def
      escape_byte_def shouldEscape_def upperhex_def)

text \<open>
  The URL that the quote fetch requests is the base URL, \<open>/swap?\<close> and that query string;
  when the request fails, the function returns the error of the fetch.
\<close>

lemma quote_fetch_requests_query:
  assumes "http_Get lib (BaseURL st @ ''/swap?'' @
             Encode (GetSwapInstructions_params fromToken toToken fromAmount slippage payer
               priorityFee forceLegacy)) = Inl err"
  shows "GetSwapInstructions lib st fromToken toToken fromAmount slippage payer priorityFee
           forceLegacy = Inl (FetchError err)"
  using assms by (simp add: GetSwapInstructions_def Let_def)

text \<open>
  Claim C9. A quote fetch that succeeds returns a \<open>SwapResponse\<close> whose \<open>ForceLegacy\<close> is
  the argument \<open>forceLegacy\<close>, for every answer of the service and every result of the
  decoder.
\<close>

theorem returned_quote_has_callers_flag:
  assumes "GetSwapInstructions lib st fromToken toToken fromAmount slippage payer priorityFee
             forceLegacy = Inr quote"
  shows "ForceLegacy quote = forceLegacy"
  using assms
  by (auto simp: GetSwapInstructions_def Let_def split: sum.splits)

text \<open>
  An instance of C9: the service echoes \<open>forceLegacy\<close> true, the caller passed false, and
  the returned quote says false.
\<close>

theorem returned_quote_has_callers_flag_witness:
  "GetSwapInstructions
     (mock_library (Inr ''txn AQID forceLegacy true'')
        (Inr \<lparr>Txn = ''AQID'', ForceLegacy = True\<rparr>))
     \<lparr>BaseURL = ''https://swap-v2.solanatracker.io'', RPC = ''https://solana-rpc.publicnode.com'',
        Keypair = ''key''\<rparr>
     ''So1'' ''4k3'' float_0_0001 float_30 ''payer'' (Some float_0_00005) False
   = Inr \<lparr>Txn = ''AQID'', ForceLegacy = False\<rparr>
   \<and> ForceLegacy \<lparr>Txn = ''AQID'', ForceLegacy = False\<rparr> = False"
proof -
  have run: "GetSwapInstructions
     (mock_library (Inr ''txn AQID forceLegacy true'')
        (Inr \<lparr>Txn = ''AQID'', ForceLegacy = True\<rparr>))
     \<lparr>BaseURL = ''https://swap-v2.solanatracker.io'', RPC = ''https://solana-rpc.publicnode.com'',
        Keypair = ''key''\<rparr>
     ''So1'' ''4k3'' float_0_0001 float_30 ''payer'' (Some float_0_00005) False
   = Inr \<lparr>Txn = ''AQID'', ForceLegacy = False\<rparr>"
    by (simp add: GetSwapInstructions_def mock_library_def Let_def)
  from returned_quote_has_callers_flag [OF run] run show ?thesis by simp
qed

end
